theory Spec2Isabelle
  imports Complex_Main "HOL-Library.AList" "HOL-Library.Sublist"
begin

section \<open>Data model of \<open>generated_strategy.py\<close>\<close>

text \<open>
  Numbers. Cash and prices are Python numbers (the starting capital is an \<open>int\<close>, the
  closing prices are floats). Every finite float and every \<open>int\<close> is a rational number, so
  cash and prices are modelled as \<^typ>\<open>rat\<close> with exact arithmetic; the rounding of binary
  floating-point arithmetic is not modelled. Share quantities are Python's unbounded
  \<open>int\<close>, modelled as \<^typ>\<open>int\<close>.

  A float that may be \<open>NaN\<close> (an indicator value during warm-up) is a \<open>rat option\<close>,
  \<open>None\<close> standing for \<open>NaN\<close>.
\<close>

type_synonym fval = "rat option"

text \<open>
  \<open>self.positions\<close> is a Python \<open>dict\<close>, which keeps its keys in insertion order: an
  association list, with \<^const>\<open>AList.update\<close> for \<open>d[k] = v\<close> (in place when the key is
  there, appended otherwise) and \<^const>\<open>AList.delete\<close> for \<open>del d[k]\<close>.

  The record holds the three fields of a \<open>Portfolio\<close> object and the console, to which
  \<open>print\<close> appends: one element of \<open>stdout\<close> per call of \<open>print\<close>.
\<close>

record portfolio =
  capital :: rat
  positions :: "(string \<times> int) list"
  history :: "string list"
  stdout :: "string list"

datatype error = KeyError string | IndexError

type_synonym outcome = "error + portfolio"

definition print :: "string \<Rightarrow> portfolio \<Rightarrow> portfolio" where
  "print s p = p\<lparr>stdout := stdout p @ [s]\<rparr>"

text \<open>\<open>d.get(k, default)\<close>\<close>

definition get :: "(string \<times> int) list \<Rightarrow> string \<Rightarrow> int \<Rightarrow> int" where
  "get d k dflt = (case map_of d k of None \<Rightarrow> dflt | Some v \<Rightarrow> v)"

subsection \<open>String formatting\<close>

definition digit_char :: "nat \<Rightarrow> char" where
  "digit_char d = ''0123456789'' ! (d mod 10)"

function str_nat :: "nat \<Rightarrow> string" where
  "str_nat n = (if n < 10 then [digit_char n] else str_nat (n div 10) @ [digit_char (n mod 10)])"
  by pat_completeness auto
termination
  by (relation "measure id") auto

declare str_nat.simps [simp del]

text \<open>\<open>f"{quantity}"\<close> for an \<open>int\<close>: its decimal digits, with a minus sign when negative.\<close>

definition str_int :: "int \<Rightarrow> string" where
  "str_int i = (if i < 0 then CHR ''-'' # str_nat (nat (- i)) else str_nat (nat i))"

text \<open>Rounding of a non-negative value to the nearest integer, ties to the even one.\<close>

definition round_half_even :: "rat \<Rightarrow> nat" where
  "round_half_even x =
     (let f = \<lfloor>x\<rfloor>; d = x - of_int f
      in nat (if d < 1 / 2 then f else if 1 / 2 < d then f + 1
              else if even f then f else f + 1))"

text \<open>
  \<open>f"{price:.2f}"\<close>: the sign of a negative value, then the magnitude correctly rounded
  to two decimals (ties to even), with at least one digit before the point.
\<close>

definition fmt2 :: "rat \<Rightarrow> string" where
  "fmt2 x =
     (let n = round_half_even (\<bar>x\<bar> * 100)
      in (if x < 0 then ''-'' else '''') @ str_nat (n div 100) @ ''.''
           @ [digit_char (n mod 100 div 10), digit_char (n mod 10)])"

section \<open>Portfolio\<close>

definition Portfolio :: "rat \<Rightarrow> portfolio" where
  "Portfolio c = \<lparr>capital = c, positions = [], history = [], stdout = []\<rparr>"

definition buy :: "string \<Rightarrow> rat \<Rightarrow> int \<Rightarrow> portfolio \<Rightarrow> outcome" where
  "buy symbol price quantity p =
     (let cost = price * of_int quantity
      in if capital p \<ge> cost
         then Inr (p\<lparr>capital := capital p - cost,
                    positions := AList.update symbol (get (positions p) symbol 0 + quantity)
                                   (positions p),
                    history := history p
                      @ [''BOUGHT '' @ str_int quantity @ '' '' @ symbol @ '' @ '' @ fmt2 price]\<rparr>)
         else Inr (print (''Insufficient capital to buy '' @ symbol) p))"

text \<open>
  In \<open>sell\<close> the guard reads the count with \<open>get(symbol, 0)\<close>, the update with
  \<open>self.positions[symbol]\<close>, which raises \<open>KeyError\<close> for a missing key. No caller in
  the file catches it, so the run ends there.
\<close>

definition sell :: "string \<Rightarrow> rat \<Rightarrow> int \<Rightarrow> portfolio \<Rightarrow> outcome" where
  "sell symbol price quantity p =
     (if get (positions p) symbol 0 \<ge> quantity
      then (case map_of (positions p) symbol of
              None \<Rightarrow> Inl (KeyError symbol)
            | Some held \<Rightarrow>
                let count = held - quantity;
                    ps = AList.update symbol count (positions p)
                in Inr (p\<lparr>capital := capital p + price * of_int quantity,
                          positions := (if count = 0 then AList.delete symbol ps else ps),
                          history := history p
                            @ [''SOLD   '' @ str_int quantity @ '' '' @ symbol @ '' @ ''
                                 @ fmt2 price]\<rparr>))
      else Inr (print (''Not enough shares to sell '' @ symbol) p))"

text \<open>Sequencing of two statements: an exception of the first skips the second.\<close>

definition seq :: "outcome \<Rightarrow> (portfolio \<Rightarrow> outcome) \<Rightarrow> outcome" where
  "seq r f = (case r of Inl e \<Rightarrow> Inl e | Inr p \<Rightarrow> f p)"

subsection \<open>Sequences of calls\<close>

datatype call = Buy string rat int | Sell string rat int

fun apply_call :: "call \<Rightarrow> portfolio \<Rightarrow> outcome" where
  "apply_call (Buy s price q) p = buy s price q p"
| "apply_call (Sell s price q) p = sell s price q p"

fun run_calls :: "call list \<Rightarrow> portfolio \<Rightarrow> outcome" where
  "run_calls [] p = Inr p"
| "run_calls (c # cs) p = seq (apply_call c p) (run_calls cs)"

text \<open>The preconditions the specification puts on a call: price \<open>\<ge> 0\<close>, quantity \<open>\<ge> 1\<close>.\<close>

fun pre :: "call \<Rightarrow> bool" where
  "pre (Buy s price q) = (0 \<le> price \<and> 1 \<le> q)"
| "pre (Sell s price q) = (0 \<le> price \<and> 1 \<le> q)"

section \<open>Strategy loop\<close>

text \<open>
  A row of the data frame as the loop reads it: the \<open>close\<close> and \<open>volume\<close> columns. The
  indicator columns are computed by \<open>pandas_ta\<close>, which is not part of the repository: the
  engine is a parameter, giving for a window length, the close series and an index the
  value of the aligned column at that index (\<open>None\<close> for \<open>NaN\<close>).
\<close>

record bar =
  close :: rat
  volume :: int

record engine =
  ta_rsi :: "nat \<Rightarrow> rat list \<Rightarrow> nat \<Rightarrow> fval"
  ta_sma :: "nat \<Rightarrow> rat list \<Rightarrow> nat \<Rightarrow> fval"
  ta_zscore :: "nat \<Rightarrow> rat list \<Rightarrow> nat \<Rightarrow> fval"

text \<open>\<open>a > b\<close> on floats: false as soon as one side is \<open>NaN\<close>.\<close>

definition gt :: "fval \<Rightarrow> fval \<Rightarrow> bool" where
  "gt a b = (case (a, b) of (Some x, Some y) \<Rightarrow> y < x | _ \<Rightarrow> False)"

text \<open>The condition of lines 97 and 100, the same expression in both places.\<close>

definition rotation_condition :: "fval \<Rightarrow> fval \<Rightarrow> fval \<Rightarrow> fval \<Rightarrow> bool" where
  "rotation_condition rsi sma50 sma200 zscore =
     ((gt rsi rsi \<and> gt sma50 sma200) \<or> gt zscore (Some 1))"

text \<open>The body of the loop over the bars, at index \<open>i\<close>; \<open>iloc\<close> raises out of range.\<close>

definition execute_bar :: "engine \<Rightarrow> bar list \<Rightarrow> nat \<Rightarrow> portfolio \<Rightarrow> outcome" where
  "execute_bar ta df i p =
     (if length df \<le> i then Inl IndexError
      else
        let price = close (df ! i);
            volume = volume (df ! i);
            rsi = ta_rsi ta 14 (map close df) i;
            sma50 = ta_sma ta 50 (map close df) i;
            sma200 = ta_sma ta 200 (map close df) i;
            zscore = ta_zscore ta 20 (map close df) i
        in seq (if rotation_condition rsi sma50 sma200 zscore
                then seq (buy ''NVDA'' price 1 p) (sell ''AMD'' price 1)
                else Inr p)
               (\<lambda>p'. if rotation_condition rsi sma50 sma200 zscore
                     then seq (buy ''AMD'' price 1 p') (sell ''NVDA'' price 1)
                     else Inr p'))"




section \<open>Backtest report\<close>



section \<open>Invariant of the positions\<close>

text \<open>Every symbol that is a key of the dictionary has a positive count.\<close>

definition pos_inv :: "(string \<times> int) list \<Rightarrow> bool" where
  "pos_inv ps = (\<forall>s v. map_of ps s = Some v \<longrightarrow> 0 < v)"

section \<open>Fixtures\<close>

text \<open>
  An indicator engine whose three columns are constant, and a \<open>dict\<close> text that is
  constant: the stand-ins for the two libraries in the concrete runs below.
\<close>

definition const_engine :: "fval \<Rightarrow> fval \<Rightarrow> fval \<Rightarrow> engine" where
  "const_engine r s z = \<lparr>ta_rsi = (\<lambda>_ _ _. r), ta_sma = (\<lambda>_ _ _. s), ta_zscore = (\<lambda>_ _ _. z)\<rparr>"


section \<open>Single calls\<close>

lemmas eval_defs = buy_def sell_def seq_def Portfolio_def get_def print_def Let_def
  fmt2_def round_half_even_def str_int_def str_nat.simps digit_char_def

lemma buy_returns: "\<exists>p'. buy s price q p = Inr p'"
  by (simp add: buy_def Let_def)

lemma sell_returns: "1 \<le> q \<Longrightarrow> \<exists>p'. sell s price q p = Inr p'"
  by (auto simp: sell_def get_def Let_def split: option.splits)

lemma buy_capital:
  "0 \<le> capital p \<Longrightarrow> buy s price q p = Inr p' \<Longrightarrow> 0 \<le> capital p'"
  by (auto simp: buy_def Let_def print_def split: if_splits)

lemma sell_capital:
  "0 \<le> capital p \<Longrightarrow> 0 \<le> price \<Longrightarrow> 1 \<le> q \<Longrightarrow> sell s price q p = Inr p' \<Longrightarrow> 0 \<le> capital p'"
  by (auto simp: sell_def Let_def print_def split: if_splits option.splits)

lemma buy_pos_inv:
  "pos_inv (positions p) \<Longrightarrow> 1 \<le> q \<Longrightarrow> buy s price q p = Inr p' \<Longrightarrow> pos_inv (positions p')"
proof -
  assume inv: "pos_inv (positions p)" and q: "1 \<le> q" and b: "buy s price q p = Inr p'"
  have g: "0 \<le> get (positions p) s 0"
    using inv by (cases "map_of (positions p) s") (auto simp: get_def pos_inv_def less_imp_le)
  show ?thesis
  proof (cases "price * of_int q \<le> capital p")
    case True
    with b have "map_of (positions p') = (map_of (positions p))(s \<mapsto> get (positions p) s 0 + q)"
      by (auto simp: buy_def Let_def update_conv')
    with inv g q show ?thesis
      by (auto simp: pos_inv_def)
  next
    case False
    with b inv show ?thesis
      by (auto simp: buy_def Let_def print_def)
  qed
qed

lemma sell_pos_inv:
  "pos_inv (positions p) \<Longrightarrow> sell s price q p = Inr p' \<Longrightarrow> pos_inv (positions p')"
proof -
  assume inv: "pos_inv (positions p)" and b: "sell s price q p = Inr p'"
  show ?thesis
  proof (cases "q \<le> get (positions p) s 0")
    case True
    with b obtain held where h: "map_of (positions p) s = Some held"
      by (cases "map_of (positions p) s") (auto simp: sell_def)
    with True have le: "q \<le> held" by (simp add: get_def)
    from b True h have "map_of (positions p') =
        (if held - q = 0 then (map_of (positions p))(s := None)
         else (map_of (positions p))(s \<mapsto> held - q))"
      by (auto simp: sell_def Let_def update_conv' delete_conv')
    with inv le show ?thesis
      by (auto simp: pos_inv_def split: if_splits)
  next
    case False
    with b inv show ?thesis
      by (auto simp: sell_def print_def)
  qed
qed

lemma apply_call_returns: "pre x \<Longrightarrow> \<exists>p'. apply_call x p = Inr p'"
  by (cases x) (auto simp: buy_returns sell_returns)

lemma apply_call_capital:
  "0 \<le> capital p \<Longrightarrow> pre x \<Longrightarrow> apply_call x p = Inr p' \<Longrightarrow> 0 \<le> capital p'"
  by (cases x) (auto dest: buy_capital sell_capital)

lemma apply_call_pos_inv:
  "pos_inv (positions p) \<Longrightarrow> pre x \<Longrightarrow> apply_call x p = Inr p' \<Longrightarrow> pos_inv (positions p')"
  by (cases x) (auto dest: buy_pos_inv sell_pos_inv)

lemma run_calls_capital:
  "0 \<le> capital p \<Longrightarrow> \<forall>x\<in>set cs. pre x \<Longrightarrow> \<exists>p'. run_calls cs p = Inr p' \<and> 0 \<le> capital p'"
proof (induction cs arbitrary: p)
  case Nil
  then show ?case by simp
next
  case (Cons x cs)
  from Cons.prems obtain p1 where p1: "apply_call x p = Inr p1"
    using apply_call_returns [of x p] by auto
  with Cons.prems have "0 \<le> capital p1"
    using apply_call_capital [of p x p1] by simp
  with Cons.IH [of p1] Cons.prems p1 show ?case
    by (simp add: seq_def)
qed

lemma run_calls_pos_inv:
  "pos_inv (positions p) \<Longrightarrow> \<forall>x\<in>set cs. pre x \<Longrightarrow> \<exists>p'. run_calls cs p = Inr p' \<and> pos_inv (positions p')"
proof (induction cs arbitrary: p)
  case Nil
  then show ?case by simp
next
  case (Cons x cs)
  from Cons.prems obtain p1 where p1: "apply_call x p = Inr p1"
    using apply_call_returns [of x p] by auto
  with Cons.prems have "pos_inv (positions p1)"
    using apply_call_pos_inv [of p x p1] by simp
  with Cons.IH [of p1] Cons.prems p1 show ?case
    by (simp add: seq_def)
qed

lemma pos_inv_counts:
  "pos_inv ps \<Longrightarrow> 0 \<le> get ps s 0 \<and> (s \<in> fst ` set ps \<longleftrightarrow> get ps s 0 \<noteq> 0)"
proof (cases "map_of ps s")
  case None
  moreover from None have "s \<notin> fst ` set ps"
    by (simp add: map_of_eq_None_iff)
  ultimately show ?thesis by (simp add: get_def)
next
  case (Some v)
  assume "pos_inv ps"
  with Some have "0 < v" by (simp add: pos_inv_def)
  moreover from Some have "s \<in> fst ` set ps"
    by (metis map_of_eq_None_iff option.distinct(1))
  ultimately show ?thesis using Some by (simp add: get_def)
qed

lemma update_absent: "k \<notin> fst ` set al \<Longrightarrow> AList.update k v al = al @ [(k, v)]"
  by (induction al) auto

section \<open>The loop condition and the report\<close>

lemma gt_self: "\<not> gt a a"
  by (cases a) (simp_all add: gt_def)

lemma rotation_condition_zscore: "rotation_condition rsi sma50 sma200 z \<longleftrightarrow> gt z (Some 1)"
  by (simp add: rotation_condition_def gt_self)








section \<open>Claims\<close>

text \<open>
  C1. From a starting capital \<open>\<ge> 0\<close>, after every call of a sequence of \<open>buy\<close> and
  \<open>sell\<close> calls that meet the preconditions (price \<open>\<ge> 0\<close>, quantity \<open>\<ge> 1\<close>) the call
  has returned and the cash is \<open>\<ge> 0\<close>; and in any state a \<open>buy\<close> whose cost exceeds the
  cash leaves the cash as it was.
\<close>

theorem capital_never_negative:
  assumes "0 \<le> c" and "\<forall>x\<in>set cs. pre x"
  shows "(\<forall>n\<le>length cs. \<exists>p. run_calls (take n cs) (Portfolio c) = Inr p \<and> 0 \<le> capital p)
       \<and> (\<forall>p s price q. capital p < price * of_int q
             \<longrightarrow> (\<exists>p'. buy s price q p = Inr p' \<and> capital p' = capital p))"
proof (intro conjI allI impI)
  fix n
  have "\<forall>x\<in>set (take n cs). pre x"
    using assms(2) by (auto dest: in_set_takeD)
  moreover have "0 \<le> capital (Portfolio c)"
    using assms(1) by (simp add: Portfolio_def)
  ultimately show "\<exists>p. run_calls (take n cs) (Portfolio c) = Inr p \<and> 0 \<le> capital p"
    by (rule run_calls_capital [rotated])
next
  fix p :: portfolio and s price q
  assume "capital p < price * of_int q"
  then show "\<exists>p'. buy s price q p = Inr p' \<and> capital p' = capital p"
    by (simp add: buy_def Let_def print_def)
qed

theorem capital_never_negative_witness:
  "(\<exists>p. run_calls [Buy ''X'' 100 3, Buy ''X'' 500 2, Sell ''X'' 110 3] (Portfolio 1000) = Inr p \<and> 0 \<le> capital p)
   \<and> (\<exists>p'. buy ''X'' 100 1 (Portfolio 50) = Inr p' \<and> capital p' = capital (Portfolio 50))"
proof -
  have a: "(0::rat) \<le> 1000" by simp
  have b: "\<forall>x\<in>set [Buy ''X'' 100 3, Buy ''X'' 500 2, Sell ''X'' 110 3]. pre x" by simp
  have c: "capital (Portfolio 50) < 100 * of_int 1" by (simp add: Portfolio_def)
  from capital_never_negative [OF a b] c show ?thesis
    by (metis length_Cons list.size(3) order_refl take_all)
qed

text \<open>
  C2. After every call of such a sequence, every symbol's count is \<open>\<ge> 0\<close>, and the symbol
  is a key of the dictionary exactly when its count is not zero.
\<close>

theorem positions_positive:
  assumes "\<forall>x\<in>set cs. pre x"
  shows "\<forall>n\<le>length cs. \<exists>p. run_calls (take n cs) (Portfolio c) = Inr p
           \<and> (\<forall>s. 0 \<le> get (positions p) s 0
                  \<and> (s \<in> fst ` set (positions p) \<longleftrightarrow> get (positions p) s 0 \<noteq> 0))"
proof (intro allI impI)
  fix n
  have "\<forall>x\<in>set (take n cs). pre x"
    using assms by (auto dest: in_set_takeD)
  moreover have "pos_inv (positions (Portfolio c))"
    by (simp add: Portfolio_def pos_inv_def)
  ultimately obtain p where "run_calls (take n cs) (Portfolio c) = Inr p" "pos_inv (positions p)"
    using run_calls_pos_inv by blast
  then show "\<exists>p. run_calls (take n cs) (Portfolio c) = Inr p
           \<and> (\<forall>s. 0 \<le> get (positions p) s 0
                  \<and> (s \<in> fst ` set (positions p) \<longleftrightarrow> get (positions p) s 0 \<noteq> 0))"
    using pos_inv_counts by blast
qed

theorem positions_positive_witness:
  "\<exists>p. run_calls [Buy ''X'' 100 3, Buy ''Y'' 5 1, Sell ''X'' 110 3] (Portfolio 1000) = Inr p
      \<and> (\<forall>s. 0 \<le> get (positions p) s 0
             \<and> (s \<in> fst ` set (positions p) \<longleftrightarrow> get (positions p) s 0 \<noteq> 0))"
proof -
  have b: "\<forall>x\<in>set [Buy ''X'' 100 3, Buy ''Y'' 5 1, Sell ''X'' 110 3]. pre x" by simp
  from positions_positive [OF b, of 1000] show ?thesis
    by (metis length_Cons list.size(3) order_refl take_all)
qed

text \<open>
  C3. At every bar index \<open>i \<ge> 1\<close> of the frame and for all indicator values (\<open>NaN\<close>
  included), the condition of the loop is equivalent to \<open>zscore > 1\<close>: the clause with
  \<open>rsi > rsi\<close> never holds. Both \<open>if\<close> statements test it, so when it holds the body is
  the four calls buy NVDA, sell AMD, buy AMD, sell NVDA, each of one share at the close of
  bar \<open>i\<close>, and each of the four returns, so that all four are made.
\<close>

theorem rotation_dead_clause:
  assumes "1 \<le> i" and "i < length df"
  shows "(rotation_condition rsi sma50 sma200 z \<longleftrightarrow> gt z (Some 1))
    \<and> execute_bar ta df i p =
        (if gt (ta_zscore ta 20 (map close df) i) (Some 1)
         then run_calls [Buy ''NVDA'' (close (df ! i)) 1, Sell ''AMD'' (close (df ! i)) 1,
                         Buy ''AMD'' (close (df ! i)) 1, Sell ''NVDA'' (close (df ! i)) 1] p
         else Inr p)
    \<and> (\<exists>p1 p2 p3 p4. buy ''NVDA'' (close (df ! i)) 1 p = Inr p1
          \<and> sell ''AMD'' (close (df ! i)) 1 p1 = Inr p2
          \<and> buy ''AMD'' (close (df ! i)) 1 p2 = Inr p3
          \<and> sell ''NVDA'' (close (df ! i)) 1 p3 = Inr p4)"
proof (intro conjI)
  show "rotation_condition rsi sma50 sma200 z \<longleftrightarrow> gt z (Some 1)"
    by (rule rotation_condition_zscore)
next
  show "execute_bar ta df i p =
        (if gt (ta_zscore ta 20 (map close df) i) (Some 1)
         then run_calls [Buy ''NVDA'' (close (df ! i)) 1, Sell ''AMD'' (close (df ! i)) 1,
                         Buy ''AMD'' (close (df ! i)) 1, Sell ''NVDA'' (close (df ! i)) 1] p
         else Inr p)"
    using assms(2)
    by (simp add: execute_bar_def Let_def rotation_condition_zscore seq_def split: sum.splits)
next
  obtain p1 where p1: "buy ''NVDA'' (close (df ! i)) 1 p = Inr p1"
    using buy_returns by blast
  obtain p2 where p2: "sell ''AMD'' (close (df ! i)) 1 p1 = Inr p2"
    using sell_returns [of 1] by blast
  obtain p3 where p3: "buy ''AMD'' (close (df ! i)) 1 p2 = Inr p3"
    using buy_returns by blast
  obtain p4 where p4: "sell ''NVDA'' (close (df ! i)) 1 p3 = Inr p4"
    using sell_returns [of 1] by blast
  from p1 p2 p3 p4 show "\<exists>p1 p2 p3 p4. buy ''NVDA'' (close (df ! i)) 1 p = Inr p1
          \<and> sell ''AMD'' (close (df ! i)) 1 p1 = Inr p2
          \<and> buy ''AMD'' (close (df ! i)) 1 p2 = Inr p3
          \<and> sell ''NVDA'' (close (df ! i)) 1 p3 = Inr p4"
    by blast
qed

theorem rotation_dead_clause_witness:
  "(rotation_condition (Some 60) (Some 5) (Some 3) (Some 2) \<longleftrightarrow> gt (Some 2) (Some 1))
   \<and> execute_bar (const_engine (Some 60) (Some 5) (Some 2))
        [\<lparr>close = 10, volume = 5\<rparr>, \<lparr>close = 11, volume = 7\<rparr>] 1 (Portfolio 12000)
     = run_calls [Buy ''NVDA'' 11 1, Sell ''AMD'' 11 1, Buy ''AMD'' 11 1, Sell ''NVDA'' 11 1]
         (Portfolio 12000)
   \<and> (\<exists>p1 p2 p3 p4. buy ''NVDA'' 11 1 (Portfolio 12000) = Inr p1
          \<and> sell ''AMD'' 11 1 p1 = Inr p2 \<and> buy ''AMD'' 11 1 p2 = Inr p3
          \<and> sell ''NVDA'' 11 1 p3 = Inr p4)"
proof -
  have a: "(1::nat) \<le> 1" by simp
  have b: "1 < length [\<lparr>close = 10::rat, volume = 5::int\<rparr>, \<lparr>close = 11, volume = 7\<rparr>]"
    by simp
  from rotation_dead_clause [OF a b, where rsi = "Some 60" and ?sma50.0 = "Some 5"
      and ?sma200.0 = "Some 3" and z = "Some 2"
      and ta = "const_engine (Some 60) (Some 5) (Some 2)" and p = "Portfolio 12000"]
  show ?thesis
    by (simp add: const_engine_def gt_def)
qed

text \<open>
  C4. A \<open>buy\<close> whose cost exceeds the cash and a \<open>sell\<close> of more than the held count
  return without an exception and leave cash, positions and ledger as they were (the only
  effect is the notice on the console).
\<close>

theorem rejected_trades_noop:
  "(capital p < price * of_int q \<longrightarrow>
      (\<exists>p'. buy s price q p = Inr p' \<and> capital p' = capital p \<and> positions p' = positions p
          \<and> history p' = history p \<and> length (history p') = length (history p)))
   \<and> (get (positions p) s 0 < q \<longrightarrow>
      (\<exists>p'. sell s price q p = Inr p' \<and> capital p' = capital p \<and> positions p' = positions p
          \<and> history p' = history p \<and> length (history p') = length (history p)))"
  by (simp add: buy_def sell_def Let_def print_def)

theorem rejected_trades_noop_witness:
  "(\<exists>p'. buy ''X'' 100 1 (Portfolio 50) = Inr p' \<and> capital p' = capital (Portfolio 50)
        \<and> positions p' = positions (Portfolio 50)
        \<and> history p' = history (Portfolio 50)
        \<and> length (history p') = length (history (Portfolio 50)))
   \<and> (\<exists>p'. sell ''X'' 100 1 (Portfolio 50) = Inr p' \<and> capital p' = capital (Portfolio 50)
        \<and> positions p' = positions (Portfolio 50)
        \<and> history p' = history (Portfolio 50)
        \<and> length (history p') = length (history (Portfolio 50)))"
proof -
  have a: "capital (Portfolio 50) < 100 * of_int 1" by (simp add: Portfolio_def)
  have b: "get (positions (Portfolio 50)) ''X'' 0 < 1" by (simp add: Portfolio_def get_def)
  from rejected_trades_noop [of "Portfolio 50" 100 1 "''X''"] a b show ?thesis
    by blast
qed

text \<open>
  C5. The claim that no call with price \<open>\<ge> 0\<close> and quantity \<open>\<ge> 0\<close> raises fails in the
  code: selling quantity 0 of a symbol that is not held passes the guard \<open>0 >= 0\<close> and
  then reads \<open>self.positions[symbol]\<close>, a \<open>KeyError\<close>.
\<close>

theorem sell_zero_of_absent_symbol_raises:
  "sell ''X'' 10 0 (Portfolio 1000) = Inl (KeyError ''X'')"
  by (simp add: sell_def Portfolio_def get_def)

text \<open>
  C6, as amended. When the z-score read at bar \<open>i\<close> is \<open>NaN\<close>, the body of the loop leaves
  the portfolio and the console as they were, whatever the other indicators are; and for
  all indicator values, \<open>NaN\<close> or not, the body returns without an exception.
\<close>

theorem nan_zscore_no_trade:
  assumes "i < length df"
  shows "(ta_zscore ta 20 (map close df) i = None \<longrightarrow> execute_bar ta df i p = Inr p)
       \<and> (\<exists>p'. execute_bar ta df i p = Inr p')"
proof
  show "ta_zscore ta 20 (map close df) i = None \<longrightarrow> execute_bar ta df i p = Inr p"
    using assms by (simp add: execute_bar_def Let_def rotation_condition_zscore gt_def seq_def)
next
  let ?c = "close (df ! i)"
  obtain p1 where p1: "buy ''NVDA'' ?c 1 p = Inr p1" using buy_returns by blast
  obtain p2 where p2: "sell ''AMD'' ?c 1 p1 = Inr p2" using sell_returns [of 1] by blast
  obtain p3 where p3: "buy ''AMD'' ?c 1 p2 = Inr p3" using buy_returns by blast
  obtain p4 where p4: "sell ''NVDA'' ?c 1 p3 = Inr p4" using sell_returns [of 1] by blast
  from p1 p2 p3 p4 assms show "\<exists>p'. execute_bar ta df i p = Inr p'"
    by (simp add: execute_bar_def Let_def seq_def)
qed

theorem nan_zscore_no_trade_witness:
  "execute_bar (const_engine (Some 60) (Some 3) None)
     [\<lparr>close = 10, volume = 5\<rparr>, \<lparr>close = 10, volume = 5\<rparr>] 1 (Portfolio 12000)
   = Inr (Portfolio 12000)"
proof -
  have a: "1 < length [\<lparr>close = 10, volume = 5\<rparr>, \<lparr>close = 10::rat, volume = 5::int\<rparr>]" by simp
  have b: "ta_zscore (const_engine (Some 60) (Some 3) None) 20
             (map close [\<lparr>close = 10, volume = 5\<rparr>, \<lparr>close = 10, volume = 5\<rparr>]) 1 = None"
    by (simp add: const_engine_def)
  from nan_zscore_no_trade [OF a, of "const_engine (Some 60) (Some 3) None" "Portfolio 12000"] b
  show ?thesis by blast
qed

text \<open>
  C6 as stated fails: with RSI and both moving averages \<open>NaN\<close> and a z-score of 2, the bar
  at index 1 trades.
\<close>

theorem nan_rsi_trades_counterexample:
  "execute_bar (const_engine None None (Some 2))
     [\<lparr>close = 10, volume = 5\<rparr>, \<lparr>close = 10, volume = 5\<rparr>] 1 (Portfolio 12000)
   = Inr \<lparr>capital = 11990, positions = [(''AMD'', 1)],
          history = [''BOUGHT 1 NVDA @ 10.00'', ''BOUGHT 1 AMD @ 10.00'', ''SOLD   1 NVDA @ 10.00''],
          stdout = [''Not enough shares to sell AMD'']\<rparr>"
  by (simp add: execute_bar_def const_engine_def rotation_condition_def gt_def eval_defs)




text \<open>
  C8, as amended. From capital 1000, \<open>buy("X", 100, 3)\<close> gives cash 700, three X held and
  the ledger \<open>["BOUGHT 3 X @ 100.00"]\<close>; \<open>sell("X", 110, 3)\<close> then gives cash 1030, no
  key X in the positions and a ledger of two entries.
\<close>

theorem scenario_buy_then_sell:
  "buy ''X'' 100 3 (Portfolio 1000)
     = Inr \<lparr>capital = 700, positions = [(''X'', 3)], history = [''BOUGHT 3 X @ 100.00''],
            stdout = []\<rparr>
   \<and> sell ''X'' 110 3 \<lparr>capital = 700, positions = [(''X'', 3)],
                       history = [''BOUGHT 3 X @ 100.00''], stdout = []\<rparr>
     = Inr \<lparr>capital = 1030, positions = [],
            history = [''BOUGHT 3 X @ 100.00'', ''SOLD   3 X @ 110.00''], stdout = []\<rparr>
   \<and> map_of [(''X'', 3::int)] ''X'' = Some 3
   \<and> ''X'' \<notin> fst ` set ([] :: (string \<times> int) list)
   \<and> length [''BOUGHT 3 X @ 100.00'', ''SOLD   3 X @ 110.00''] = 2"
  by (simp add: eval_defs)

text \<open>
  C8 as stated fails on the text of the ledger entry, which is not \<open>BUY 3 X@100.00\<close>.
\<close>

theorem scenario_ledger_text_counterexample:
  "buy ''X'' 100 3 (Portfolio 1000)
     = Inr \<lparr>capital = 700, positions = [(''X'', 3)], history = [''BOUGHT 3 X @ 100.00''],
            stdout = []\<rparr>
   \<and> [''BOUGHT 3 X @ 100.00''] \<noteq> [''BUY 3 X@100.00'']"
  by (simp add: eval_defs)




text \<open>
  C10. For a symbol that is not a key of the positions, cash \<open>\<ge> 0\<close> and
  \<open>0 \<le> price \<le> cash\<close>, \<open>buy(symbol, price, 0)\<close> returns, leaves the cash as it was,
  appends a ledger entry of quantity 0 and adds the symbol to the positions with count 0.
\<close>

theorem buy_zero_quantity:
  assumes "s \<notin> fst ` set (positions p)" and "0 \<le> capital p" and "0 \<le> price"
    and "price \<le> capital p"
  shows "\<exists>p'. buy s price 0 p = Inr p' \<and> capital p' = capital p
           \<and> history p' = history p @ [''BOUGHT 0 '' @ s @ '' @ '' @ fmt2 price]
           \<and> positions p' = positions p @ [(s, 0)]
           \<and> map_of (positions p') s = Some 0"
proof -
  from assms(1) have "map_of (positions p) s = None"
    by (simp add: map_of_eq_None_iff)
  with assms(1,2) show ?thesis
    by (simp add: buy_def Let_def get_def update_absent str_int_def str_nat.simps digit_char_def
        map_add_def)
qed

theorem buy_zero_quantity_witness:
  "\<exists>p'. buy ''X'' 100 0 (Portfolio 1000) = Inr p' \<and> capital p' = capital (Portfolio 1000)
           \<and> history p' = history (Portfolio 1000) @ [''BOUGHT 0 '' @ ''X'' @ '' @ '' @ fmt2 100]
           \<and> positions p' = positions (Portfolio 1000) @ [(''X'', 0)]
           \<and> map_of (positions p') ''X'' = Some 0"
proof -
  have a: "''X'' \<notin> fst ` set (positions (Portfolio 1000))" by (simp add: Portfolio_def)
  have b: "0 \<le> capital (Portfolio 1000)" by (simp add: Portfolio_def)
  have c: "(0::rat) \<le> 100" by simp
  have d: "100 \<le> capital (Portfolio 1000)" by (simp add: Portfolio_def)
  from buy_zero_quantity [OF a b c d] show ?thesis .
qed

end
